theory Spec2Isabelle
  imports Main "HOL-Library.Sublist"
begin

section \<open>The student roster of \<open>src/app.jsx\<close>\<close>

text \<open>
  The component \<open>ERPApp\<close> keeps an ordered list of student records in React state and
  changes it through three handlers (\<open>handleAdmit\<close>, \<open>handlePayFees\<close>,
  \<open>toggleHostel\<close>); \<open>metrics\<close> and \<open>filtered\<close> are recomputed from the list.
  The handlers are modelled as functions from the state before the event to the alert
  they raise (if any) and the state after it.

  Modelling conventions:
  \<^item> a JavaScript string is a \<open>string\<close>; \<open>toLowerCase\<close> is modelled on ASCII letters;
  \<^item> a JavaScript number is an \<open>int\<close>: the integer-valued numbers, on which \<open>+\<close> is
    exact (below \<open>2^53\<close>). \<open>Number(amount)\<close> is the integer the caller's amount denotes;
  \<^item> \<open>null\<close> in the \<open>hostel\<close> field is \<open>None\<close>, a string \<open>h\<close> is \<open>Some h\<close>;
  \<^item> \<open>uid()\<close> and \<open>today()\<close> read the random generator and the clock: their results
    are parameters of the functions that call them.
\<close>

subsection \<open>JavaScript values\<close>

text \<open>
  The values that can sit in the \<open>year\<close> field (a number, or the string of the year
  input) and in the accumulator object of \<open>occupancyByHostel\<close>. \<open>Builtin k\<close> is what
  reading the key \<open>k\<close> of an object literal gives when \<open>k\<close> is not an own property
  but a property of \<open>Object.prototype\<close>: a built-in function, or for \<open>__proto__\<close>
  the prototype object itself.
\<close>

datatype jsval = Undefined | NaN | JNum int | JStr string | Builtin string

fun truthy :: "jsval \<Rightarrow> bool" where
  "truthy Undefined = False"
| "truthy NaN = False"
| "truthy (JNum n) = (n \<noteq> 0)"
| "truthy (JStr s) = (s \<noteq> [])"
| "truthy (Builtin k) = True"

text \<open>\<open>a || b\<close>\<close>

definition js_or :: "jsval \<Rightarrow> jsval \<Rightarrow> jsval" where
  "js_or a b = (if truthy a then a else b)"

text \<open>The property names every object literal inherits from \<open>Object.prototype\<close>.\<close>

definition Object_prototype_keys :: "string list" where
  "Object_prototype_keys =
     [''constructor'', ''__defineGetter__'', ''__defineSetter__'', ''hasOwnProperty'',
      ''__lookupGetter__'', ''__lookupSetter__'', ''isPrototypeOf'',
      ''propertyIsEnumerable'', ''toString'', ''valueOf'', ''__proto__'',
      ''toLocaleString'']"

text \<open>
  An object used as a dictionary: its own enumerable properties, as \<open>Object.entries\<close>
  lists them (the order of the entries is not used by any statement below).
\<close>

type_synonym jsobj = "(string \<times> jsval) list"

text \<open>\<open>acc[k]\<close>, read: the own property if there is one, else the inherited one.\<close>

definition obj_get :: "jsobj \<Rightarrow> string \<Rightarrow> jsval" where
  "obj_get acc k =
     (case map_of acc k of
        Some v \<Rightarrow> v
      | None \<Rightarrow> if k \<in> set Object_prototype_keys then Builtin k else Undefined)"

text \<open>
  \<open>acc[k] = v\<close>, written: the own property is replaced or added. The key
  \<open>__proto__\<close> is an accessor of \<open>Object.prototype\<close> whose setter ignores a value
  that is neither an object nor \<open>null\<close>, so nothing is stored.
\<close>

fun own_put :: "string \<Rightarrow> jsval \<Rightarrow> jsobj \<Rightarrow> jsobj" where
  "own_put k v [] = [(k, v)]"
| "own_put k v ((k', v') # ps) =
     (if k' = k then (k, v) # ps else (k', v') # own_put k v ps)"

definition obj_set :: "jsobj \<Rightarrow> string \<Rightarrow> jsval \<Rightarrow> jsobj" where
  "obj_set acc k v = (if k = ''__proto__'' then acc else own_put k v acc)"

text \<open>
  The text a built-in converts to when \<open>+\<close> turns it into a primitive: the source text
  of a native function (as V8 prints it; no statement below depends on its wording),
  \<open>[object Object]\<close> for the prototype object.
\<close>

definition builtin_text :: "string \<Rightarrow> string" where
  "builtin_text k =
     (if k = ''__proto__'' then ''[object Object]''
      else if k = ''constructor'' then ''function Object() { [native code] }''
      else ''function '' @ k @ ''() { [native code] }'')"

text \<open>
  \<open>v + 1\<close>: addition on a number, concatenation with \<open>"1"\<close> on a string and on a
  built-in (converted to its text first).
\<close>

fun js_plus1 :: "jsval \<Rightarrow> jsval" where
  "js_plus1 Undefined = NaN"
| "js_plus1 NaN = NaN"
| "js_plus1 (JNum n) = JNum (n + 1)"
| "js_plus1 (JStr s) = JStr (s @ ''1'')"
| "js_plus1 (Builtin k) = JStr (builtin_text k @ ''1'')"

subsection \<open>Records and state\<close>

text \<open>
  The admission form has the fields \<open>name, branch, year, hostel, feesPaid\<close>; a student
  record is \<open>{ id: uid(), ...form, admissionDate: today() }\<close>, the form's fields
  extended by \<open>id\<close> and \<open>admissionDate\<close>.
\<close>

record form =
  name :: string
  branch :: string
  year :: jsval
  hostel :: "string option"
  feesPaid :: int

record student = form +
  id_s :: string
  admissionDate :: string

record app_state =
  students :: "student list"
  form :: form
  activeTab :: string

definition emptyForm :: form where
  "emptyForm = \<lparr>name = '''', branch = '''', year = JNum 1, hostel = Some '''', feesPaid = 0\<rparr>"

text \<open>\<open>initialStudents\<close> calls \<open>uid()\<close> three times.\<close>

definition initialStudents :: "string \<Rightarrow> string \<Rightarrow> string \<Rightarrow> student list" where
  "initialStudents u1 u2 u3 =
     [\<lparr>name = ''Aisha Verma'', branch = ''Computer Engg'', year = JNum 1, hostel = Some ''A'',
        feesPaid = 15000, id_s = u1, admissionDate = ''2025-06-15''\<rparr>,
      \<lparr>name = ''Rohit Sharma'', branch = ''Electronics'', year = JNum 2, hostel = Some ''B'',
        feesPaid = 20000, id_s = u2, admissionDate = ''2024-08-21''\<rparr>,
      \<lparr>name = ''Maya Nair'', branch = ''Mechanical'', year = JNum 3, hostel = None,
        feesPaid = 0, id_s = u3, admissionDate = ''2023-07-01''\<rparr>]"

definition initial_state :: "string \<Rightarrow> string \<Rightarrow> string \<Rightarrow> app_state" where
  "initial_state u1 u2 u3 =
     \<lparr>students = initialStudents u1 u2 u3, form = emptyForm, activeTab = ''dashboard''\<rparr>"

text \<open>\<open>s.hostel\<close> as a condition: \<open>null\<close> and the empty string are falsy.\<close>

definition hostel_set :: "student \<Rightarrow> bool" where
  "hostel_set s = (case hostel s of None \<Rightarrow> False | Some h \<Rightarrow> h \<noteq> [])"

subsection \<open>Handlers\<close>

text \<open>
  A handler returns the alert it shows (\<open>None\<close> when it shows none) and the state
  after it. An alert with an early return is the only way a handler of the source
  rejects a call.
\<close>

type_synonym outcome = "string option \<times> app_state"

definition rejected :: "outcome \<Rightarrow> bool" where
  "rejected r = (fst r \<noteq> None)"

text \<open>\<open>handleAdmit\<close>, with the results of \<open>uid()\<close> and \<open>today()\<close> as \<open>u\<close> and \<open>d\<close>.\<close>

definition newStudent :: "string \<Rightarrow> form \<Rightarrow> string \<Rightarrow> student" where
  "newStudent u f d =
     \<lparr>name = name f, branch = branch f, year = year f, hostel = hostel f,
      feesPaid = feesPaid f, id_s = u, admissionDate = d\<rparr>"

definition handleAdmit :: "string \<Rightarrow> string \<Rightarrow> app_state \<Rightarrow> outcome" where
  "handleAdmit u d st =
     (if name (form st) = [] \<or> branch (form st) = []
      then (Some ''Name and branch required'', st)
      else (None, st\<lparr>students := newStudent u (form st) d # students st,
                      form := emptyForm,
                      activeTab := ''students''\<rparr>))"

text \<open>\<open>Number(x || 0)\<close> on a number \<open>x\<close>.\<close>

definition Number_or0 :: "int \<Rightarrow> int" where
  "Number_or0 x = (if x \<noteq> 0 then x else 0)"

definition handlePayFees :: "string \<Rightarrow> int \<Rightarrow> app_state \<Rightarrow> outcome" where
  "handlePayFees studentId amount st =
     (None, st\<lparr>students :=
        map (\<lambda>s. if id_s s = studentId
                 then s\<lparr>feesPaid := Number_or0 (feesPaid s) + amount\<rparr> else s)
            (students st)\<rparr>)"

definition toggleHostel :: "string \<Rightarrow> string \<Rightarrow> app_state \<Rightarrow> outcome" where
  "toggleHostel studentId hostelName st =
     (None, st\<lparr>students :=
        map (\<lambda>s. if id_s s = studentId
                 then s\<lparr>hostel := (if hostel s = Some hostelName then None else Some hostelName)\<rparr>
                 else s)
            (students st)\<rparr>)"

subsection \<open>Derived metrics\<close>

record metrics_rec =
  totalStudents :: nat
  totalFees :: int
  hostelOccupancy :: nat
  occupancyByHostel :: jsobj

text \<open>The callback of the second \<open>reduce\<close>.\<close>

definition occ_step :: "jsobj \<Rightarrow> student \<Rightarrow> jsobj" where
  "occ_step acc s =
     (case hostel s of
        None \<Rightarrow> acc
      | Some h \<Rightarrow>
          if h \<noteq> [] then obj_set acc h (js_plus1 (js_or (obj_get acc h) (JNum 0))) else acc)"

definition metrics :: "student list \<Rightarrow> metrics_rec" where
  "metrics studs =
     \<lparr>totalStudents = length studs,
      totalFees = foldl (\<lambda>s x. s + Number_or0 (feesPaid x)) 0 studs,
      hostelOccupancy = length (filter hostel_set studs),
      occupancyByHostel = foldl occ_step [] studs\<rparr>"

subsection \<open>Search\<close>

definition toLowerCase_char :: "char \<Rightarrow> char" where
  "toLowerCase_char c =
     (case map_of (zip ''ABCDEFGHIJKLMNOPQRSTUVWXYZ'' ''abcdefghijklmnopqrstuvwxyz'') c of
        Some l \<Rightarrow> l
      | None \<Rightarrow> c)"

definition toLowerCase :: "string \<Rightarrow> string" where
  "toLowerCase s = map toLowerCase_char s"

text \<open>\<open>String.prototype.includes\<close>: the argument occurs at some position.\<close>

fun includes_str :: "string \<Rightarrow> string \<Rightarrow> bool" where
  "includes_str [] q = (q = [])"
| "includes_str (c # cs) q = (prefix q (c # cs) \<or> includes_str cs q)"

text \<open>\<open>[s.name, s.branch, s.id].join(' ')\<close>\<close>

definition joined :: "student \<Rightarrow> string" where
  "joined s = name s @ '' '' @ branch s @ '' '' @ id_s s"

definition filtered :: "string \<Rightarrow> student list \<Rightarrow> student list" where
  "filtered query studs =
     filter (\<lambda>s. includes_str (toLowerCase (joined s)) (toLowerCase query)) studs"

subsection \<open>Events\<close>

text \<open>
  What a user can do to the state that the handlers read or write: type into the four
  inputs of the admission form (\<open>setForm(f => ({ ...f, name: e.target.value }))\<close> and
  its siblings; the year input delivers a string), reset the form, submit it, record a
  payment, toggle a hostel. \<open>Admit u d\<close> carries what \<open>uid()\<close> and \<open>today()\<close>
  return during that submission.
\<close>

datatype event =
    SetName string | SetBranch string | SetYear string | SetHostel string | ResetForm
  | Admit string string | PayFees string int | ToggleHostel string string

fun step :: "event \<Rightarrow> app_state \<Rightarrow> app_state" where
  "step (SetName v) st = st\<lparr>form := (form st)\<lparr>name := v\<rparr>\<rparr>"
| "step (SetBranch v) st = st\<lparr>form := (form st)\<lparr>branch := v\<rparr>\<rparr>"
| "step (SetYear v) st = st\<lparr>form := (form st)\<lparr>year := JStr v\<rparr>\<rparr>"
| "step (SetHostel v) st = st\<lparr>form := (form st)\<lparr>hostel := Some v\<rparr>\<rparr>"
| "step ResetForm st = st\<lparr>form := emptyForm\<rparr>"
| "step (Admit u d) st = snd (handleAdmit u d st)"
| "step (PayFees i a) st = snd (handlePayFees i a st)"
| "step (ToggleHostel i h) st = snd (toggleHostel i h st)"

fun run :: "event list \<Rightarrow> app_state \<Rightarrow> app_state" where
  "run [] st = st"
| "run (e # es) st = run es (step e st)"



text \<open>
  Along a run, every submission that is accepted draws an id that no record of the
  roster carries at that moment.
\<close>

fun ids_fresh :: "event list \<Rightarrow> app_state \<Rightarrow> bool" where
  "ids_fresh [] st = True"
| "ids_fresh (Admit u d # es) st =
     ((rejected (handleAdmit u d st) \<or> u \<notin> set (map id_s (students st)))
      \<and> ids_fresh es (step (Admit u d) st))"
| "ids_fresh (e # es) st = ids_fresh es (step e st)"

subsection \<open>Reading the results\<close>

text \<open>
  The sum of the values of an object whose values are all numbers; \<open>None\<close> when some
  value is not a number.
\<close>

fun values_sum :: "jsobj \<Rightarrow> int option" where
  "values_sum [] = Some 0"
| "values_sum ((k, v) # ps) =
     (case v of
        JNum n \<Rightarrow> (case values_sum ps of Some t \<Rightarrow> Some (n + t) | None \<Rightarrow> None)
      | _ \<Rightarrow> None)"

text \<open>
  The search as the specification words it: the records whose name, branch and id,
  concatenated, contain the query, both in lower case.
\<close>

definition search_spec :: "string \<Rightarrow> student list \<Rightarrow> student list" where
  "search_spec query studs =
     filter (\<lambda>s. sublist (toLowerCase query) (toLowerCase (name s @ branch s @ id_s s))) studs"

text \<open>A state to run the handlers on: the initial roster with three ids drawn.\<close>

definition demo_state :: app_state where
  "demo_state = initial_state ''K3J9X2A'' ''Q7W1E5R'' ''M2N8B4V''"

text \<open>
  The record of the admission scenario (the hostel input left empty), alone in a roster.
\<close>

definition zara :: student where
  "zara = \<lparr>name = ''Zara Khan'', branch = ''Civil'', year = JNum 2, hostel = Some '''',
      feesPaid = 0, id_s = ''Z1'', admissionDate = ''2025-01-10''\<rparr>"

definition zara_state :: app_state where
  "zara_state = \<lparr>students = [zara], form = emptyForm, activeTab = ''students''\<rparr>"

lemmas demo_defs = demo_state_def initial_state_def initialStudents_def emptyForm_def

section \<open>Properties of the handlers\<close>

subsection \<open>Auxiliary facts\<close>

lemma handlePayFees_not_rejected: "\<not> rejected (handlePayFees i a st)"
  by (simp add: rejected_def handlePayFees_def)

lemma toggleHostel_not_rejected: "\<not> rejected (toggleHostel i h st)"
  by (simp add: rejected_def toggleHostel_def)

lemma students_handlePayFees:
  "students (snd (handlePayFees i a st)) =
     map (\<lambda>s. if id_s s = i then s\<lparr>feesPaid := feesPaid s + a\<rparr> else s) (students st)"
  by (simp add: handlePayFees_def Number_or0_def)

lemma students_toggleHostel:
  "students (snd (toggleHostel i h st)) =
     map (\<lambda>s. if id_s s = i
              then s\<lparr>hostel := (if hostel s = Some h then None else Some h)\<rparr> else s)
       (students st)"
  by (simp add: toggleHostel_def)

lemma handlePayFees_unknown:
  assumes "i \<notin> set (map id_s (students st))"
  shows "snd (handlePayFees i a st) = st"
proof -
  have "map (\<lambda>s. if id_s s = i then s\<lparr>feesPaid := Number_or0 (feesPaid s) + a\<rparr> else s)
          (students st) = students st"
    using assms by (intro map_idI) auto
  then show ?thesis by (simp add: handlePayFees_def)
qed

lemma toggleHostel_unknown:
  assumes "i \<notin> set (map id_s (students st))"
  shows "snd (toggleHostel i h st) = st"
proof -
  have "map (\<lambda>s. if id_s s = i
               then s\<lparr>hostel := (if hostel s = Some h then None else Some h)\<rparr> else s)
          (students st) = students st"
    using assms by (intro map_idI) auto
  then show ?thesis by (simp add: toggleHostel_def)
qed


lemma students_toggleHostel_twice:
  "students (snd (toggleHostel i h (snd (toggleHostel i h st)))) =
     map (\<lambda>s. if id_s s = i then s\<lparr>hostel := (if hostel s = Some h then Some h else None)\<rparr> else s)
       (students st)"
  by (simp add: students_toggleHostel comp_def)

text \<open>The keys of \<open>occupancyByHostel\<close> are labels in use.\<close>

lemma keys_own_put: "fst ` set (own_put k v acc) = insert k (fst ` set acc)"
  by (induction k v acc rule: own_put.induct) auto

lemma keys_occ_step:
  assumes "k \<in> fst ` set (occ_step acc s)"
  shows "k \<in> fst ` set acc \<or> (k \<noteq> [] \<and> hostel s = Some k)"
proof (cases "hostel s")
  case None
  with assms show ?thesis by (simp add: occ_step_def)
next
  case (Some h)
  show ?thesis
  proof (cases "h = [] \<or> h = ''__proto__''")
    case True
    with assms Some show ?thesis
      by (auto simp: occ_step_def obj_set_def)
  next
    case False
    with Some have "occ_step acc s = own_put h (js_plus1 (js_or (obj_get acc h) (JNum 0))) acc"
      by (simp add: occ_step_def obj_set_def)
    with assms have "k = h \<or> k \<in> fst ` set acc"
      by (simp add: keys_own_put)
    with Some False show ?thesis by blast
  qed
qed

lemma keys_foldl_occ_step:
  "k \<in> fst ` set (foldl occ_step acc xs) \<Longrightarrow>
     k \<in> fst ` set acc \<or> (k \<noteq> [] \<and> (\<exists>s \<in> set xs. hostel s = Some k))"
proof (induction xs arbitrary: acc)
  case Nil
  then show ?case by simp
next
  case (Cons x xs)
  from Cons.prems have "k \<in> fst ` set (foldl occ_step (occ_step acc x) xs)"
    by simp
  from Cons.IH [OF this]
  consider "k \<in> fst ` set (occ_step acc x)" | "k \<noteq> [] \<and> (\<exists>s \<in> set xs. hostel s = Some k)"
    by blast
  then show ?case
  proof cases
    case 1
    from keys_occ_step [OF 1] show ?thesis by auto
  next
    case 2
    then show ?thesis by auto
  qed
qed

lemma occupancy_keys_in_use:
  assumes "k \<in> fst ` set (occupancyByHostel (metrics studs))"
  shows "k \<noteq> [] \<and> (\<exists>s \<in> set studs. hostel s = Some k)"
proof -
  from assms have "k \<in> fst ` set (foldl occ_step [] studs)"
    by (simp add: metrics_def)
  from keys_foldl_occ_step [OF this] show ?thesis by simp
qed

lemma values_sum_own_put:
  "values_sum acc = Some t \<Longrightarrow>
     values_sum (own_put k
        (js_plus1 (js_or (case map_of acc k of Some v \<Rightarrow> v | None \<Rightarrow> Undefined) (JNum 0))) acc)
       = Some (t + 1)"
proof (induction acc arbitrary: t)
  case Nil
  then show ?case by (simp add: js_or_def)
next
  case (Cons p ps)
  obtain k' v' where p: "p = (k', v')" by (cases p)
  from Cons.prems p obtain n t' where v': "v' = JNum n" and ps: "values_sum ps = Some t'" and t: "t = n + t'"
    by (auto split: jsval.splits option.splits)
  show ?case
  proof (cases "k' = k")
    case True
    then show ?thesis using p v' ps t by (simp add: js_or_def)
  next
    case False
    then show ?thesis using p v' ps t Cons.IH [OF ps] by simp
  qed
qed

lemma values_sum_occ_step:
  assumes "values_sum acc = Some t"
    and "\<And>h. hostel s = Some h \<Longrightarrow> h \<notin> set Object_prototype_keys"
  shows "values_sum (occ_step acc s) = Some (t + (if hostel_set s then 1 else 0))"
proof (cases "hostel s")
  case None
  then show ?thesis using assms(1) by (simp add: occ_step_def hostel_set_def)
next
  case (Some h)
  show ?thesis
  proof (cases "h = []")
    case True
    then show ?thesis using Some assms(1) by (simp add: occ_step_def hostel_set_def)
  next
    case False
    from assms(2) [OF Some] have np: "h \<notin> set Object_prototype_keys" .
    then have "h \<noteq> ''__proto__''" by (auto simp: Object_prototype_keys_def)
    then have "occ_step acc s
        = own_put h
            (js_plus1 (js_or (case map_of acc h of Some v \<Rightarrow> v | None \<Rightarrow> Undefined) (JNum 0))) acc"
      using Some False np by (simp add: occ_step_def obj_set_def obj_get_def split: option.splits)
    then show ?thesis
      using values_sum_own_put [OF assms(1), of h] Some False by (simp add: hostel_set_def)
  qed
qed

lemma values_sum_foldl:
  assumes "values_sum acc = Some t"
    and "\<And>s h. s \<in> set xs \<Longrightarrow> hostel s = Some h \<Longrightarrow> h \<notin> set Object_prototype_keys"
  shows "values_sum (foldl occ_step acc xs) = Some (t + int (length (filter hostel_set xs)))"
  using assms
proof (induction xs arbitrary: acc t)
  case Nil
  then show ?case by simp
next
  case (Cons x xs)
  have step: "values_sum (occ_step acc x) = Some (t + (if hostel_set x then 1 else 0))"
    using Cons.prems by (intro values_sum_occ_step) auto
  have "values_sum (foldl occ_step (occ_step acc x) xs)
      = Some (t + (if hostel_set x then 1 else 0) + int (length (filter hostel_set xs)))"
    using Cons.prems(2) by (intro Cons.IH [OF step]) auto
  then show ?case by simp
qed

lemma occupancy_sum_plain_labels:
  assumes "\<And>s h. s \<in> set studs \<Longrightarrow> hostel s = Some h \<Longrightarrow> h \<notin> set Object_prototype_keys"
  shows "values_sum (occupancyByHostel (metrics studs)) = Some (int (hostelOccupancy (metrics studs)))"
  using values_sum_foldl [of "[]" 0 studs] assms by (simp add: metrics_def)

text \<open>No handler changes the ids of the records already in the roster.\<close>

lemma ids_handlePayFees: "map id_s (students (snd (handlePayFees i a st))) = map id_s (students st)"
  by (simp add: students_handlePayFees comp_def if_distrib [of id_s] cong: if_cong)

lemma ids_toggleHostel: "map id_s (students (snd (toggleHostel i h st))) = map id_s (students st)"
  by (simp add: students_toggleHostel comp_def if_distrib [of id_s] cong: if_cong)

lemma ids_handleAdmit:
  "map id_s (students (snd (handleAdmit u d st))) =
     (if rejected (handleAdmit u d st) then map id_s (students st)
      else u # map id_s (students st))"
  by (simp add: handleAdmit_def rejected_def newStudent_def)

text \<open>\<open>includes\<close> decides the sublist relation.\<close>

lemma includes_str_sublist: "includes_str s q \<longleftrightarrow> sublist q s"
  by (induction s) (simp_all add: sublist_Cons_right)



subsection \<open>Payments\<close>




text \<open>
  C3. The source has no lookup failure: \<open>map\<close> over a roster without the id returns
  the roster. Amended: \<open>payFees\<close> with an id that matches no record shows no error and
  is a silent no-op; the state after the call is identical to the state before it.
\<close>

theorem payFees_unknown_id_noop:
  "studentId \<notin> set (map id_s (students st)) \<Longrightarrow>
     \<not> rejected (handlePayFees studentId amount st)
     \<and> snd (handlePayFees studentId amount st) = st"
  using handlePayFees_not_rejected handlePayFees_unknown by blast

theorem payFees_unknown_id_noop_witness:
  "''UNKNOWN'' \<notin> set (map id_s (students demo_state))
   \<and> \<not> rejected (handlePayFees ''UNKNOWN'' 100 demo_state)
   \<and> snd (handlePayFees ''UNKNOWN'' 100 demo_state) = demo_state"
proof -
  have unknown: "''UNKNOWN'' \<notin> set (map id_s (students demo_state))"
    by (simp add: demo_defs)
  from payFees_unknown_id_noop [OF unknown, of 100] unknown show ?thesis by blast
qed

theorem payFees_unknown_id_counterexample:
  "\<not> rejected (handlePayFees ''UNKNOWN'' 100 demo_state)"
  by (simp add: rejected_def handlePayFees_def)

subsection \<open>Hostel toggle\<close>

text \<open>
  C4. The source has no lookup failure here either. Amended: \<open>toggleHostel(id, label)\<close>
  never fails; if no record has that id it leaves the state unchanged without an error;
  otherwise, if the matched record's current hostel equals the label it sets the hostel
  to \<open>null\<close>, and in every other case (also when the record is assigned to a different
  hostel) it sets the hostel to the label.
\<close>

theorem toggleHostel_cases:
  "\<not> rejected (toggleHostel studentId label st)
   \<and> (studentId \<notin> set (map id_s (students st)) \<longrightarrow> snd (toggleHostel studentId label st) = st)
   \<and> length (students (snd (toggleHostel studentId label st))) = length (students st)
   \<and> (\<forall>i < length (students st). id_s (students st ! i) = studentId \<longrightarrow>
         hostel (students (snd (toggleHostel studentId label st)) ! i)
           = (if hostel (students st ! i) = Some label then None else Some label))"
  using toggleHostel_not_rejected [of studentId label st] toggleHostel_unknown [of studentId st label]
  by (simp add: students_toggleHostel)

theorem toggleHostel_cases_witness:
  "map hostel (students (snd (toggleHostel ''K3J9X2A'' ''A'' demo_state))) = [None, Some ''B'', None]
   \<and> map hostel (students (snd (toggleHostel ''Q7W1E5R'' ''A'' demo_state))) = [Some ''A'', Some ''A'', None]
   \<and> map hostel (students (snd (toggleHostel ''M2N8B4V'' ''A'' demo_state))) = [Some ''A'', Some ''B'', Some ''A'']
   \<and> snd (toggleHostel ''UNKNOWN'' ''A'' demo_state) = demo_state"
proof -
  have "''UNKNOWN'' \<notin> set (map id_s (students demo_state))"
    by (simp add: demo_defs)
  with toggleHostel_cases [of "''UNKNOWN''" "''A''" demo_state]
  have "snd (toggleHostel ''UNKNOWN'' ''A'' demo_state) = demo_state" by blast
  then show ?thesis by (simp add: students_toggleHostel) (simp add: demo_defs)
qed

theorem toggleHostel_unknown_id_counterexample:
  "\<not> rejected (toggleHostel ''UNKNOWN'' ''A'' demo_state)"
  by (simp add: rejected_def toggleHostel_def)

text \<open>
  C10. \<open>toggleHostel\<close> changes nothing but the \<open>hostel\<close> field of the records with the
  given id: the other six fields of every record, every record with another id, the
  length and order of the roster, the form and the active tab stay as they were.
\<close>

theorem toggleHostel_frame:
  "length (students (snd (toggleHostel studentId label st))) = length (students st)
   \<and> (\<forall>i < length (students st).
        id_s (students (snd (toggleHostel studentId label st)) ! i) = id_s (students st ! i)
        \<and> name (students (snd (toggleHostel studentId label st)) ! i) = name (students st ! i)
        \<and> branch (students (snd (toggleHostel studentId label st)) ! i) = branch (students st ! i)
        \<and> year (students (snd (toggleHostel studentId label st)) ! i) = year (students st ! i)
        \<and> feesPaid (students (snd (toggleHostel studentId label st)) ! i) = feesPaid (students st ! i)
        \<and> admissionDate (students (snd (toggleHostel studentId label st)) ! i)
            = admissionDate (students st ! i)
        \<and> (id_s (students st ! i) \<noteq> studentId \<longrightarrow>
             students (snd (toggleHostel studentId label st)) ! i = students st ! i))
   \<and> form (snd (toggleHostel studentId label st)) = form st
   \<and> activeTab (snd (toggleHostel studentId label st)) = activeTab st"
  by (simp add: toggleHostel_def)

theorem toggleHostel_frame_witness:
  "snd (toggleHostel ''Q7W1E5R'' ''A'' demo_state)
     = demo_state\<lparr>students := (students demo_state)
          [1 := (students demo_state ! 1)\<lparr>hostel := Some ''A''\<rparr>]\<rparr>"
  using toggleHostel_frame [of "''Q7W1E5R''" "''A''" demo_state]
  by (simp add: toggleHostel_def demo_defs)

text \<open>
  C2. Two toggles with the same label do not always restore the field: a record assigned
  to another label is first reassigned and then released. Amended: two consecutive
  \<open>toggleHostel(id, L)\<close> calls leave the hostel of each record with that id at \<open>L\<close> if
  it was \<open>L\<close> before and at \<open>null\<close> otherwise. So the field returns to exactly its
  prior value when that was \<open>null\<close> or \<open>L\<close> (the whole state is then as before the
  first call); a record without a hostel is without a hostel afterwards, and then
  \<open>occupancyByHostel\<close> has the key \<open>L\<close> only if a record with another id holds \<open>L\<close>.
\<close>

theorem double_toggle_result:
  "students (snd (toggleHostel i h (snd (toggleHostel i h st)))) =
     map (\<lambda>s. if id_s s = i then s\<lparr>hostel := (if hostel s = Some h then Some h else None)\<rparr> else s)
       (students st)
   \<and> ((\<forall>s \<in> set (students st). id_s s = i \<longrightarrow> hostel s = None \<or> hostel s = Some h) \<longrightarrow>
        snd (toggleHostel i h (snd (toggleHostel i h st))) = st)
   \<and> (\<forall>k < length (students st).
        id_s (students st ! k) = i \<and> \<not> hostel_set (students st ! k) \<longrightarrow>
          \<not> hostel_set (students (snd (toggleHostel i h (snd (toggleHostel i h st)))) ! k))
   \<and> ((\<forall>s \<in> set (students st). id_s s = i \<longrightarrow> \<not> hostel_set s) \<and>
        h \<in> fst ` set (occupancyByHostel
               (metrics (students (snd (toggleHostel i h (snd (toggleHostel i h st)))))))
        \<longrightarrow> (\<exists>s \<in> set (students st). id_s s \<noteq> i \<and> hostel s = Some h))"
proof (intro conjI)
  let ?st2 = "snd (toggleHostel i h (snd (toggleHostel i h st)))"
  let ?f = "\<lambda>s. if id_s s = i then s\<lparr>hostel := (if hostel s = Some h then Some h else None)\<rparr> else s"
  show twice: "students ?st2 = map ?f (students st)"
    by (rule students_toggleHostel_twice)
  show "(\<forall>s \<in> set (students st). id_s s = i \<longrightarrow> hostel s = None \<or> hostel s = Some h) \<longrightarrow> ?st2 = st"
  proof
    assume a: "\<forall>s \<in> set (students st). id_s s = i \<longrightarrow> hostel s = None \<or> hostel s = Some h"
    have "map ?f (students st) = students st"
    proof (rule map_idI)
      fix s assume "s \<in> set (students st)"
      with a show "?f s = s" by auto
    qed
    with twice have "students ?st2 = students st" by simp
    moreover have "?st2 = st\<lparr>students := students ?st2\<rparr>"
      by (simp add: toggleHostel_def)
    ultimately show "?st2 = st" by simp
  qed
  show "\<forall>k < length (students st).
        id_s (students st ! k) = i \<and> \<not> hostel_set (students st ! k) \<longrightarrow>
          \<not> hostel_set (students ?st2 ! k)"
    unfolding twice by (auto simp: hostel_set_def split: option.splits)
  show "(\<forall>s \<in> set (students st). id_s s = i \<longrightarrow> \<not> hostel_set s) \<and>
        h \<in> fst ` set (occupancyByHostel (metrics (students ?st2)))
        \<longrightarrow> (\<exists>s \<in> set (students st). id_s s \<noteq> i \<and> hostel s = Some h)"
  proof
    assume a: "(\<forall>s \<in> set (students st). id_s s = i \<longrightarrow> \<not> hostel_set s) \<and>
        h \<in> fst ` set (occupancyByHostel (metrics (students ?st2)))"
    then obtain s' where s': "s' \<in> set (students ?st2)" "hostel s' = Some h" and ne: "h \<noteq> []"
      using occupancy_keys_in_use [of h "students ?st2"] by blast
    from s'(1) obtain s where s: "s \<in> set (students st)" "s' = ?f s"
      unfolding twice by auto
    show "\<exists>s \<in> set (students st). id_s s \<noteq> i \<and> hostel s = Some h"
    proof (cases "id_s s = i")
      case True
      with a s(1) have "\<not> hostel_set s" by blast
      with True s(2) s'(2) ne show ?thesis
        by (auto simp: hostel_set_def split: if_splits)
    next
      case False
      with s s'(2) show ?thesis by auto
    qed
  qed
qed

theorem double_toggle_result_witness:
  "\<not> hostel_set (students zara_state ! 0)
   \<and> map hostel (students (snd (toggleHostel ''Z1'' ''A'' (snd (toggleHostel ''Z1'' ''A'' zara_state))))) = [None]
   \<and> occupancyByHostel (metrics (students
         (snd (toggleHostel ''Z1'' ''A'' (snd (toggleHostel ''Z1'' ''A'' zara_state)))))) = []
   \<and> snd (toggleHostel ''M2N8B4V'' ''A'' (snd (toggleHostel ''M2N8B4V'' ''A'' demo_state))) = demo_state
   \<and> map fst (occupancyByHostel (metrics (students demo_state))) = [''A'', ''B'']"
proof -
  have "\<forall>s \<in> set (students demo_state). id_s s = ''M2N8B4V'' \<longrightarrow> hostel s = None \<or> hostel s = Some ''A''"
    by (simp add: demo_defs)
  with double_toggle_result [of "''M2N8B4V''" "''A''" demo_state]
  have "snd (toggleHostel ''M2N8B4V'' ''A'' (snd (toggleHostel ''M2N8B4V'' ''A'' demo_state))) = demo_state"
    by blast
  moreover have "\<not> hostel_set (students zara_state ! 0)"
    by (simp add: zara_state_def zara_def hostel_set_def)
  moreover have "map hostel (students (snd (toggleHostel ''Z1'' ''A'' (snd (toggleHostel ''Z1'' ''A'' zara_state))))) = [None]"
    by (simp add: students_toggleHostel_twice) (simp add: zara_state_def zara_def)
  moreover have "occupancyByHostel (metrics (students
         (snd (toggleHostel ''Z1'' ''A'' (snd (toggleHostel ''Z1'' ''A'' zara_state)))))) = []"
    by (simp add: students_toggleHostel_twice) (simp add: zara_state_def zara_def metrics_def occ_step_def)
  moreover have "map fst (occupancyByHostel (metrics (students demo_state))) = [''A'', ''B'']"
    by (simp add: demo_defs metrics_def occ_step_def obj_set_def obj_get_def js_or_def
        Object_prototype_keys_def)
  ultimately show ?thesis by blast
qed

text \<open>
  The claim as stated fails for the second record of the initial roster, which is in
  hostel B: after two toggles with label A it is in no hostel.
\<close>

theorem double_toggle_counterexample:
  "hostel (students demo_state ! 1) = Some ''B''
   \<and> hostel (students (snd (toggleHostel ''Q7W1E5R'' ''A'' (snd (toggleHostel ''Q7W1E5R'' ''A'' demo_state)))) ! 1)
       = None"
  by (simp add: toggleHostel_def demo_defs)

subsection \<open>Monotonicity of the fees\<close>




subsection \<open>Admission\<close>



subsection \<open>Identifiers\<close>

text \<open>
  C7. \<open>uid()\<close> draws seven random characters and \<open>handleAdmit\<close> does not compare
  them with the roster, so two admissions can carry the same id. Amended: if the ids of
  the roster are pairwise distinct and every accepted admission draws an id that no
  record carries at that moment, then the ids are pairwise distinct in every state
  reached.
\<close>

theorem ids_distinct_when_fresh:
  "distinct (map id_s (students st)) \<Longrightarrow> ids_fresh evs st \<Longrightarrow>
     distinct (map id_s (students (run evs st)))"
proof (induction evs arbitrary: st)
  case Nil
  then show ?case by simp
next
  case (Cons e evs)
  have "distinct (map id_s (students (step e st)))"
    using Cons.prems by (cases e) (auto simp: ids_handleAdmit ids_handlePayFees ids_toggleHostel)
  moreover have "ids_fresh evs (step e st)"
    using Cons.prems(2) by (cases e) simp_all
  ultimately show ?case using Cons.IH by simp
qed

theorem ids_distinct_when_fresh_witness:
  "distinct (map id_s (students demo_state))
   \<and> ids_fresh [SetName ''Zara Khan'', SetBranch ''Civil'', Admit ''Z1'' ''2025-01-10'',
        PayFees ''Z1'' 5000, Admit ''Z1'' ''2025-01-11'', SetName ''Omar Ali'',
        SetBranch ''Civil'', Admit ''Z2'' ''2025-01-11'', ToggleHostel ''Z2'' ''A''] demo_state
   \<and> map id_s (students (run [SetName ''Zara Khan'', SetBranch ''Civil'', Admit ''Z1'' ''2025-01-10'',
        PayFees ''Z1'' 5000, Admit ''Z1'' ''2025-01-11'', SetName ''Omar Ali'',
        SetBranch ''Civil'', Admit ''Z2'' ''2025-01-11'', ToggleHostel ''Z2'' ''A''] demo_state))
      = [''Z2'', ''Z1'', ''K3J9X2A'', ''Q7W1E5R'', ''M2N8B4V'']
   \<and> distinct (map id_s (students (run [SetName ''Zara Khan'', SetBranch ''Civil'', Admit ''Z1'' ''2025-01-10'',
        PayFees ''Z1'' 5000, Admit ''Z1'' ''2025-01-11'', SetName ''Omar Ali'',
        SetBranch ''Civil'', Admit ''Z2'' ''2025-01-11'', ToggleHostel ''Z2'' ''A''] demo_state)))"
proof -
  let ?evs = "[SetName ''Zara Khan'', SetBranch ''Civil'', Admit ''Z1'' ''2025-01-10'',
        PayFees ''Z1'' 5000, Admit ''Z1'' ''2025-01-11'', SetName ''Omar Ali'',
        SetBranch ''Civil'', Admit ''Z2'' ''2025-01-11'', ToggleHostel ''Z2'' ''A'']"
  have d: "distinct (map id_s (students demo_state))"
    by (simp add: demo_defs)
  have f: "ids_fresh ?evs demo_state"
    by (simp add: demo_defs handleAdmit_def handlePayFees_def toggleHostel_def rejected_def
        newStudent_def)
  have r: "map id_s (students (run ?evs demo_state)) = [''Z2'', ''Z1'', ''K3J9X2A'', ''Q7W1E5R'', ''M2N8B4V'']"
    by (simp add: demo_defs handleAdmit_def handlePayFees_def toggleHostel_def rejected_def
        newStudent_def)
  from ids_distinct_when_fresh [OF d f] d f r show ?thesis by blast
qed

text \<open>The claim as stated fails when the generator returns the same id twice.\<close>

theorem ids_collide_counterexample:
  "\<not> distinct (map id_s (students (run
       [SetName ''Zara Khan'', SetBranch ''Civil'', Admit ''R4T6Y8U'' ''2025-01-10'',
        SetName ''Omar Ali'', SetBranch ''Civil'', Admit ''R4T6Y8U'' ''2025-01-11'']
       demo_state)))"
  by (simp add: demo_defs handleAdmit_def newStudent_def)

subsection \<open>Search\<close>

text \<open>
  C8. The source joins name, branch and id with single spaces before it searches.
  Amended: \<open>search(query)\<close> returns, in store order, exactly the records for which
  the lower-cased query is a substring of the lower-cased text
  \<open>name + " " + branch + " " + id\<close>; for the empty query it returns the full roster.
\<close>

theorem filtered_matches_joined:
  "filtered query studs =
     filter (\<lambda>s. sublist (toLowerCase query)
                   (toLowerCase (name s @ '' '' @ branch s @ '' '' @ id_s s))) studs
   \<and> filtered '''' studs = studs"
  by (simp add: filtered_def includes_str_sublist joined_def toLowerCase_def)

theorem filtered_matches_joined_witness:
  "filtered ''KHAN'' (zara # students demo_state) = [zara]
   \<and> filtered '''' (zara # students demo_state) = zara # students demo_state"
  using filtered_matches_joined [of "''KHAN''" "zara # students demo_state"]
  by (simp add: demo_defs zara_def toLowerCase_def toLowerCase_char_def sublist_Cons_right)

text \<open>
  The claim as stated (plain concatenation) fails for the query \<open>Khan Civil\<close>: the
  source finds Zara Khan of Civil, whose concatenated fields \<open>Zara KhanCivilZ1\<close> do not
  contain it.
\<close>

theorem search_concatenation_counterexample:
  "filtered ''Khan Civil'' [zara] = [zara] \<and> search_spec ''Khan Civil'' [zara] = []"
  by (simp add: filtered_def search_spec_def joined_def zara_def toLowerCase_def
      toLowerCase_char_def sublist_Cons_right)

subsection \<open>Occupancy\<close>

text \<open>
  C9. \<open>occupancyByHostel\<close> counts in an object literal, which inherits the properties
  of \<open>Object.prototype\<close>. For a label that is none of their names the values are
  counts and sum to \<open>hostelOccupancy\<close> (lemma \<open>occupancy_sum_plain_labels\<close>). A
  student admitted with the hostel \<open>__proto__\<close> is counted by \<open>hostelOccupancy\<close>, but
  the assignment to \<open>acc['__proto__']\<close> stores nothing: the values sum to 2 beside an
  occupancy of 3. With the hostel \<open>constructor\<close> the value stored is a string.
\<close>

theorem occupancy_prototype_labels:
  "hostelOccupancy (metrics (students (run
       [SetName ''Zara Khan'', SetBranch ''Civil'', SetHostel ''__proto__'',
        Admit ''Z1'' ''2025-01-10''] demo_state))) = 3
   \<and> occupancyByHostel (metrics (students (run
       [SetName ''Zara Khan'', SetBranch ''Civil'', SetHostel ''__proto__'',
        Admit ''Z1'' ''2025-01-10''] demo_state))) = [(''A'', JNum 1), (''B'', JNum 1)]
   \<and> values_sum (occupancyByHostel (metrics (students (run
       [SetName ''Zara Khan'', SetBranch ''Civil'', SetHostel ''__proto__'',
        Admit ''Z1'' ''2025-01-10''] demo_state)))) = Some 2
   \<and> hostelOccupancy (metrics [zara\<lparr>hostel := Some ''constructor''\<rparr>]) = 1
   \<and> map fst (occupancyByHostel (metrics [zara\<lparr>hostel := Some ''constructor''\<rparr>]))
       = [''constructor'']
   \<and> values_sum (occupancyByHostel (metrics [zara\<lparr>hostel := Some ''constructor''\<rparr>])) = None"
  by (simp add: metrics_def occ_step_def obj_set_def obj_get_def js_or_def
      Object_prototype_keys_def builtin_text_def hostel_set_def zara_def demo_defs
      handleAdmit_def newStudent_def)

end
